theory Spec2Isabelle
  imports Complex_Main
begin

section \<open>Audio buffers\<close>

text \<open>
  Modelled from the spec: the \<^verbatim>\<open>AudioSegment\<close> type that \<^verbatim>\<open>generate_audio.py\<close> imports
  from the pydub library is not under src/. The spec's AudioBuffer is an ordered sequence
  of PCM samples with a duration derived from the sample count, an immutable value whose
  operations (padding, gain, overlay, normalize) return new buffers. Here a buffer is the
  list of its sample amplitudes, one sample per time-unit, so that \<^verbatim>\<open>len(audio)\<close> is
  \<open>length\<close> and \<^verbatim>\<open>a + b\<close> on two buffers is \<open>@\<close>. Amplitudes are ideal real numbers:
  quantisation to the PCM sample width is not part of the model.
\<close>

type_synonym AudioSegment = "real list"

text \<open>
  Modelled from the spec: full scale, "the maximum representable amplitude of the audio
  format"; the value is that of 16-bit PCM.
\<close>

definition max_possible_amplitude :: real where
  "max_possible_amplitude = 32768"

text \<open>Modelled from the spec: \<^verbatim>\<open>AudioSegment.silent(duration=d)\<close>, silence of duration d.\<close>

definition silent :: "nat \<Rightarrow> AudioSegment" where
  "silent duration = replicate duration 0"

text \<open>
  Modelled from the spec: decibel levels. A gain of \<open>G\<close> dB multiplies the linear
  amplitude by \<open>10^(G/20)\<close>; the level of amplitude ratio 0 is minus infinity.
\<close>

datatype level = NegInf | Level real

definition db_to_float :: "real \<Rightarrow> real" where
  "db_to_float db = 10 powr (db / 20)"

definition ratio_to_db :: "real \<Rightarrow> level" where
  "ratio_to_db ratio = (if ratio = 0 then NegInf else Level (20 * log 10 ratio))"

fun level_gt :: "level \<Rightarrow> real \<Rightarrow> bool" where
  "level_gt NegInf t = False"
| "level_gt (Level x) t = (t < x)"

fun level_le :: "level \<Rightarrow> real \<Rightarrow> bool" where
  "level_le NegInf t = True"
| "level_le (Level x) t = (x \<le> t)"

text \<open>
  Modelled from the spec: \<^verbatim>\<open>audio + dB\<close> and \<^verbatim>\<open>audio - dB\<close>, a gain applied to every
  sample ("additive in dB, multiplicative in linear amplitude").
\<close>

definition apply_gain :: "AudioSegment \<Rightarrow> real \<Rightarrow> AudioSegment" where
  "apply_gain seg db = map (\<lambda>s. s * db_to_float db) seg"

text \<open>
  Modelled from the spec: \<^verbatim>\<open>a.overlay(b)\<close>, the sample-wise sum of \<open>b\<close> onto \<open>a\<close>.
  The spec describes the sum of equal-length buffers only; for unequal lengths the model
  follows the contract of pydub's \<^verbatim>\<open>overlay\<close>: the result keeps the length of the
  receiver \<open>a\<close>, a shorter \<open>b\<close> leaves the rest of \<open>a\<close> as it is, and the samples of a
  longer \<open>b\<close> beyond the end of \<open>a\<close> are dropped.
\<close>

fun overlay :: "AudioSegment \<Rightarrow> AudioSegment \<Rightarrow> AudioSegment" where
  "overlay [] seg = []"
| "overlay (x # xs) [] = x # xs"
| "overlay (x # xs) (y # ys) = (x + y) # overlay xs ys"

text \<open>
  Modelled from the spec: the peak of a buffer (\<^verbatim>\<open>audio.max\<close>, the largest absolute
  sample value) and its level relative to full scale (\<^verbatim>\<open>audio.max_dBFS\<close>).
\<close>

definition seg_max :: "AudioSegment \<Rightarrow> real" where
  "seg_max seg = foldr (\<lambda>s m. max \<bar>s\<bar> m) seg 0"

definition max_dBFS :: "AudioSegment \<Rightarrow> level" where
  "max_dBFS seg = ratio_to_db (seg_max seg / max_possible_amplitude)"

text \<open>
  Modelled from the spec: \<^verbatim>\<open>audio.normalize(headroom=h)\<close>, one gain for the whole
  buffer that puts its peak at exactly \<open>-h\<close> dBFS; a buffer of peak 0 is returned as it is.
\<close>

definition normalize_seg :: "AudioSegment \<Rightarrow> real \<Rightarrow> AudioSegment" where
  "normalize_seg seg headroom =
     (let peak_sample_val = seg_max seg
      in if peak_sample_val = 0 then seg
         else let target_peak = max_possible_amplitude * db_to_float (- headroom)
              in map (\<lambda>s. s * (target_peak / peak_sample_val)) seg)"

section \<open>The random source\<close>

text \<open>
  \<^verbatim>\<open>random.randint(a, b)\<close> reads the process-wide generator. The model passes the
  generator explicitly: a tape of raw draws, of which \<open>randint\<close> consumes the first and
  maps it into \<open>[a, b]\<close>.
\<close>

type_synonym rng = "nat \<Rightarrow> nat"

definition rng_skip :: "nat \<Rightarrow> rng \<Rightarrow> rng" where
  "rng_skip k g = (\<lambda>i. g (i + k))"

definition randint :: "nat \<Rightarrow> nat \<Rightarrow> rng \<Rightarrow> nat \<times> rng" where
  "randint a b g = (a + g 0 mod (b - a + 1), rng_skip 1 g)"

section \<open>CrowdSynthesizer: \<^verbatim>\<open>add_slight_variation\<close> and \<^verbatim>\<open>create_crowd_audio\<close>\<close>

definition add_slight_variation :: "AudioSegment \<Rightarrow> nat \<Rightarrow> rng \<Rightarrow> AudioSegment \<times> rng" where
  "add_slight_variation audio variation_ms g =
     (let (padding, g') = randint 0 variation_ms g;
          silence = silent padding
      in (silence @ audio, g'))"

text \<open>
  The expression \<^verbatim>\<open>add_slight_variation(base_audio, 30) if add_variation else base_audio\<close>,
  which \<^verbatim>\<open>create_crowd_audio\<close> evaluates for every copy it takes.
\<close>

definition varied_copy :: "AudioSegment \<Rightarrow> bool \<Rightarrow> rng \<Rightarrow> AudioSegment \<times> rng" where
  "varied_copy base_audio add_variation g =
     (if add_variation then add_slight_variation base_audio 30 g else (base_audio, g))"

text \<open>\<^verbatim>\<open>num_layers = min(int(num_copies ** 0.5), 50)\<close>\<close>

definition num_layers :: "nat \<Rightarrow> nat" where
  "num_layers num_copies = min (nat \<lfloor>sqrt (real num_copies)\<rfloor>) 50"

text \<open>\<^verbatim>\<open>db_increase = 10 * math.log10(num_copies)\<close>\<close>

definition db_increase :: "nat \<Rightarrow> real" where
  "db_increase num_copies = 10 * log 10 (real num_copies)"

text \<open>
  The loop \<^verbatim>\<open>for _ in range(1, num_layers)\<close>: the first argument counts the iterations
  that remain, the pair is the accumulator \<^verbatim>\<open>result\<close> and the random source.
\<close>

fun layer_loop ::
  "nat \<Rightarrow> AudioSegment \<Rightarrow> nat \<Rightarrow> bool \<Rightarrow> AudioSegment \<times> rng \<Rightarrow> AudioSegment \<times> rng" where
  "layer_loop 0 base_audio nl add_variation (result, g) = (result, g)"
| "layer_loop (Suc k) base_audio nl add_variation (result, g) =
     (let (copy, g') = varied_copy base_audio add_variation g;
          copy' = apply_gain copy (- (3 * log 10 (real nl)))
      in layer_loop k base_audio nl add_variation (overlay result copy', g'))"

definition create_crowd_audio ::
  "AudioSegment \<Rightarrow> nat \<Rightarrow> bool \<Rightarrow> rng \<Rightarrow> AudioSegment \<times> rng" where
  "create_crowd_audio base_audio num_copies add_variation g =
     (if num_copies = 0 then (silent (length base_audio), g)
      else if num_copies = 1 then varied_copy base_audio add_variation g
      else
        let nl = num_layers num_copies;
            first = varied_copy base_audio add_variation g;
            (result, g') = layer_loop (nl - 1) base_audio nl add_variation first
        in (apply_gain result (db_increase num_copies), g'))"

section \<open>CrowdSynthesizer as the spec words it\<close>

text \<open>
  The spec's words for \<^verbatim>\<open>synthesize(base, virtualSize, jitter)\<close> with virtualSize above 1
  (section 4.1), written down independently of the code, to be compared with
  \<open>create_crowd_audio\<close>. The \<open>i\<close>-th jittered copy is \<open>base\<close> behind a silence of the
  \<open>i\<close>-th draw, a duration in \<open>[0, 30]\<close>; without jitter every copy is \<open>base\<close>. The
  result takes copy 0 as the accumulator, overlays copies \<open>1 .. L - 1\<close>, each attenuated
  by \<open>3 log10(L)\<close> dB, with \<open>L = min(floor(sqrt(virtualSize)), 50)\<close>, and applies the gain
  \<open>G_dB = 10 log10(virtualSize)\<close> to the sum.
\<close>

definition spec_copy :: "AudioSegment \<Rightarrow> bool \<Rightarrow> rng \<Rightarrow> nat \<Rightarrow> AudioSegment" where
  "spec_copy base jitter g i = (if jitter then replicate (g i mod 31) 0 @ base else base)"

definition spec_synthesize :: "AudioSegment \<Rightarrow> nat \<Rightarrow> bool \<Rightarrow> rng \<Rightarrow> AudioSegment" where
  "spec_synthesize base v jitter g =
     (let L = min (nat \<lfloor>sqrt (real v)\<rfloor>) 50;
          G_dB = 10 * log 10 (real v);
          accumulated =
            foldl (\<lambda>acc i. overlay acc (apply_gain (spec_copy base jitter g i) (- (3 * log 10 (real L)))))
              (spec_copy base jitter g 0) [1..<L]
      in apply_gain accumulated G_dB)"

section \<open>CrowdMixer: \<^verbatim>\<open>mix_agree_disagree_crowds\<close>\<close>

definition mix_agree_disagree_crowds :: "AudioSegment \<Rightarrow> AudioSegment \<Rightarrow> AudioSegment" where
  "mix_agree_disagree_crowds agree_audio disagree_audio =
     (let max_length = max (length agree_audio) (length disagree_audio);
          agree_audio' =
            (if length agree_audio < max_length
             then agree_audio @ silent (max_length - length agree_audio) else agree_audio);
          disagree_audio' =
            (if length disagree_audio < max_length
             then disagree_audio @ silent (max_length - length disagree_audio) else disagree_audio);
          mixed = overlay agree_audio' disagree_audio'
      in if level_gt (max_dBFS mixed) (- 1) then normalize_seg mixed 1 else mixed)"

section \<open>IssueAudioPipeline: \<^verbatim>\<open>generate_audio_for_issue\<close> and \<^verbatim>\<open>main\<close>\<close>

text \<open>\<^verbatim>\<open>NUM_VOICES = 100\<close>, the total number of simulated voices.\<close>

definition NUM_VOICES :: int where
  "NUM_VOICES = 100"

text \<open>
  Python's \<^verbatim>\<open>round\<close> on a float: to the nearest integer, a tie to the even one.
\<close>

definition py_round :: "real \<Rightarrow> int" where
  "py_round x =
     (let f = \<lfloor>x\<rfloor>; d = x - of_int f
      in if d < 1 / 2 then f else if 1 / 2 < d then f + 1 else if even f then f else f + 1)"

text \<open>
  The two assignments \<^verbatim>\<open>agree_count = round(NUM_VOICES * pct / 100)\<close> and
  \<^verbatim>\<open>disagree_count = NUM_VOICES - agree_count\<close>, which \<^verbatim>\<open>generate_audio_for_issue\<close> makes
  once for the scientific and once for the public percentage. The population is an
  argument; the code passes \<open>NUM_VOICES\<close>.
\<close>

definition voice_counts :: "int \<Rightarrow> real \<Rightarrow> int \<times> int" where
  "voice_counts total_voices pct =
     (let agree_count = py_round (of_int total_voices * pct / 100);
          disagree_count = total_voices - agree_count
      in (agree_count, disagree_count))"

text \<open>
  The exception of \<^verbatim>\<open>float(s)\<close> on a string that is not a number. Nothing in
  \<^verbatim>\<open>generate_audio_for_issue\<close> or \<^verbatim>\<open>main\<close> catches it.
\<close>

datatype error = ValueError

text \<open>A row of the input table, as \<^verbatim>\<open>csv.DictReader\<close> yields it: every field a string.\<close>

record issue_data =
  issue :: string
  statement :: string
  scientific_consensus :: string
  public_agreement :: string

text \<open>
  The six buffers that one record exports, by the suffix of their file name.
\<close>

record issue_audio =
  sci_agree_mp3 :: AudioSegment
  sci_disagree_mp3 :: AudioSegment
  sci_both_mp3 :: AudioSegment
  pub_agree_mp3 :: AudioSegment
  pub_disagree_mp3 :: AudioSegment
  pub_both_mp3 :: AudioSegment

text \<open>
  The buffer of one stance:
  \<^verbatim>\<open>create_crowd_audio(base, count, add_variation=True) if count > 0 else AudioSegment.silent(duration=len(base))\<close>.
  The code evaluates it twice per stance and population: in the \<^verbatim>\<open>if count > 0\<close> block
  that exports the stance alone, and again for the buffer named \<^verbatim>\<open>..._for_mix\<close>.
\<close>

definition crowd_or_silent :: "AudioSegment \<Rightarrow> int \<Rightarrow> rng \<Rightarrow> AudioSegment \<times> rng" where
  "crowd_or_silent base count g =
     (if 0 < count then create_crowd_audio base (nat count) True g
      else (silent (length base), g))"

text \<open>
  The number of draws that the stance expression above takes from the random source:
  none for silence, one for a single voice, one per layer otherwise.
\<close>

definition draws :: "int \<Rightarrow> nat" where
  "draws count = (if count \<le> 0 then 0 else if count = 1 then 1 else num_layers (nat count))"

text \<open>
  \<^verbatim>\<open>generate_audio_for_issue\<close>. Two collaborators are arguments: \<open>py_float\<close> is Python's
  \<^verbatim>\<open>float\<close> on a string (\<open>None\<close> where it raises \<^verbatim>\<open>ValueError\<close>; a percentage is a real
  number here, so the strings that \<^verbatim>\<open>float\<close> reads as nan or infinity, on which \<^verbatim>\<open>round\<close>
  raises a few lines later, count as rejected too), and \<open>generate_tts\<close> is
  the speech service followed by the decoding of the file it saved (\<open>None\<close> where
  \<^verbatim>\<open>generate_tts\<close> returns \<^verbatim>\<open>False\<close>). The result is \<open>Inl\<close> for an exception that leaves
  the function, \<open>Inr (None, g)\<close> for \<^verbatim>\<open>return False\<close>, and \<open>Inr (Some files, g)\<close> for
  \<^verbatim>\<open>return True\<close> with the six exported buffers; \<open>g\<close> is the random source afterwards.
\<close>

definition generate_audio_for_issue ::
  "(string \<Rightarrow> real option) \<Rightarrow> (string \<Rightarrow> string \<Rightarrow> AudioSegment option) \<Rightarrow>
   issue_data \<Rightarrow> nat \<Rightarrow> rng \<Rightarrow> error + (issue_audio option \<times> rng)" where
  "generate_audio_for_issue py_float generate_tts issue_data index g =
     (case py_float (scientific_consensus issue_data) of
        None \<Rightarrow> Inl ValueError
      | Some sci_consensus \<Rightarrow>
     (case py_float (public_agreement issue_data) of
        None \<Rightarrow> Inl ValueError
      | Some pub_agreement \<Rightarrow>
     (let (sci_agree_count, sci_disagree_count) = voice_counts NUM_VOICES sci_consensus;
          (pub_agree_count, pub_disagree_count) = voice_counts NUM_VOICES pub_agreement;
          agree_text = ''I believe '' @ statement issue_data;
          disagree_text = ''I don't believe '' @ statement issue_data
      in case generate_tts agree_text ''com'' of
           None \<Rightarrow> Inr (None, g)
         | Some agree_base \<Rightarrow>
        (case generate_tts disagree_text ''co.uk'' of
           None \<Rightarrow> Inr (None, g)
         | Some disagree_base \<Rightarrow>
        (let (sci_agree_crowd, g1) = crowd_or_silent agree_base sci_agree_count g;
             (sci_disagree_crowd, g2) = crowd_or_silent disagree_base sci_disagree_count g1;
             (sci_agree_for_mix, g3) = crowd_or_silent agree_base sci_agree_count g2;
             (sci_disagree_for_mix, g4) = crowd_or_silent disagree_base sci_disagree_count g3;
             sci_both = mix_agree_disagree_crowds sci_agree_for_mix sci_disagree_for_mix;
             (pub_agree_crowd, g5) = crowd_or_silent agree_base pub_agree_count g4;
             (pub_disagree_crowd, g6) = crowd_or_silent disagree_base pub_disagree_count g5;
             (pub_agree_for_mix, g7) = crowd_or_silent agree_base pub_agree_count g6;
             (pub_disagree_for_mix, g8) = crowd_or_silent disagree_base pub_disagree_count g7;
             pub_both = mix_agree_disagree_crowds pub_agree_for_mix pub_disagree_for_mix
         in Inr (Some \<lparr>sci_agree_mp3 = sci_agree_crowd, sci_disagree_mp3 = sci_disagree_crowd,
                         sci_both_mp3 = sci_both, pub_agree_mp3 = pub_agree_crowd,
                         pub_disagree_mp3 = pub_disagree_crowd, pub_both_mp3 = pub_both\<rparr>, g8))))))"

text \<open>
  The loop of \<^verbatim>\<open>main\<close> over \<^verbatim>\<open>enumerate(data)\<close>, with \<^verbatim>\<open>success_count\<close> and the files
  written so far. An exception of \<^verbatim>\<open>generate_audio_for_issue\<close> leaves the loop.
\<close>

fun main_loop ::
  "(string \<Rightarrow> real option) \<Rightarrow> (string \<Rightarrow> string \<Rightarrow> AudioSegment option) \<Rightarrow>
   (nat \<times> issue_data) list \<Rightarrow> nat \<Rightarrow> (nat \<times> issue_audio) list \<Rightarrow> rng \<Rightarrow>
   error + (nat \<times> (nat \<times> issue_audio) list \<times> rng)" where
  "main_loop py_float generate_tts [] success_count files g = Inr (success_count, files, g)"
| "main_loop py_float generate_tts ((index, issue_row) # rest) success_count files g =
     (case generate_audio_for_issue py_float generate_tts issue_row index g of
        Inl e \<Rightarrow> Inl e
      | Inr (None, g') \<Rightarrow> main_loop py_float generate_tts rest success_count files g'
      | Inr (Some audio, g') \<Rightarrow>
          main_loop py_float generate_tts rest (success_count + 1) (files @ [(index, audio)]) g')"

text \<open>
  \<^verbatim>\<open>main\<close>: \<open>Inr (success_count, len(data), files)\<close> when the run reaches the final report
  \<^verbatim>\<open>Generation complete: success_count/len(data)\<close>, \<open>Inl\<close> when an exception ends the run
  before it.
\<close>

definition main ::
  "(string \<Rightarrow> real option) \<Rightarrow> (string \<Rightarrow> string \<Rightarrow> AudioSegment option) \<Rightarrow>
   issue_data list \<Rightarrow> rng \<Rightarrow> error + (nat \<times> nat \<times> (nat \<times> issue_audio) list)" where
  "main py_float generate_tts data g =
     (case main_loop py_float generate_tts (enumerate 0 data) 0 [] g of
        Inl e \<Rightarrow> Inl e
      | Inr (success_count, files, g') \<Rightarrow> Inr (success_count, length data, files))"

section \<open>Facts about buffers\<close>


lemma seg_max_silent: "seg_max (silent d) = 0"
  by (induction d) (simp_all add: seg_max_def silent_def)

lemma length_silent: "length (silent d) = d"
  by (simp add: silent_def)

lemma length_overlay: "length (overlay a b) = length a"
  by (induction a b rule: overlay.induct) simp_all

lemma overlay_take: "overlay a b = overlay a (take (length a) b)"
  by (induction a b rule: overlay.induct) simp_all

lemma length_apply_gain: "length (apply_gain seg db) = length seg"
  by (simp add: apply_gain_def)

lemma seg_max_nonneg: "0 \<le> seg_max seg"
  by (induction seg) (simp_all add: seg_max_def)

lemma seg_max_scale: "0 \<le> c \<Longrightarrow> seg_max (map (\<lambda>s. s * c) seg) = seg_max seg * c"
proof (induction seg)
  case Nil
  show ?case by (simp add: seg_max_def)
next
  case (Cons s seg)
  have "seg_max (map (\<lambda>s. s * c) (s # seg)) = max \<bar>s * c\<bar> (seg_max (map (\<lambda>s. s * c) seg))"
    by (simp add: seg_max_def)
  also have "\<dots> = max (\<bar>s\<bar> * c) (seg_max seg * c)"
    using Cons by (simp add: abs_mult)
  also have "\<dots> = max \<bar>s\<bar> (seg_max seg) * c"
    using Cons.prems by (simp add: max_mult_distrib_right)
  finally show ?case by (simp add: seg_max_def)
qed

lemma length_normalize_seg: "length (normalize_seg seg h) = length seg"
  by (simp add: normalize_seg_def Let_def)

lemma db_to_float_pos: "0 < db_to_float db"
  by (simp add: db_to_float_def)

lemma seg_max_normalize_seg:
  assumes "seg_max seg \<noteq> 0"
  shows "seg_max (normalize_seg seg h) = max_possible_amplitude * db_to_float (- h)"
proof -
  have pos: "0 < seg_max seg" using assms seg_max_nonneg [of seg] by simp
  have c: "0 \<le> max_possible_amplitude * db_to_float (- h) / seg_max seg"
    using pos db_to_float_pos [of "- h"] by (simp add: max_possible_amplitude_def)
  show ?thesis
    using assms seg_max_scale [OF c, of seg] by (simp add: normalize_seg_def Let_def)
qed

lemma max_dBFS_normalize_seg:
  assumes "seg_max seg \<noteq> 0"
  shows "max_dBFS (normalize_seg seg h) = Level (- h)"
proof -
  have "seg_max (normalize_seg seg h) / max_possible_amplitude = 10 powr (- h / 20)"
    using seg_max_normalize_seg [OF assms] by (simp add: max_possible_amplitude_def db_to_float_def)
  then show ?thesis
    by (simp add: max_dBFS_def ratio_to_db_def)
qed

lemma level_gt_max_dBFS: "level_gt (max_dBFS seg) t \<Longrightarrow> seg_max seg \<noteq> 0"
  by (auto simp: max_dBFS_def ratio_to_db_def)

lemma not_level_gt: "\<not> level_gt l t \<Longrightarrow> level_le l t"
  by (cases l) simp_all

lemma mix_unfold:
  "mix_agree_disagree_crowds a b =
     (let mixed = overlay (a @ silent (max (length a) (length b) - length a))
                          (b @ silent (max (length a) (length b) - length b))
      in if level_gt (max_dBFS mixed) (- 1) then normalize_seg mixed 1 else mixed)"
  by (simp add: mix_agree_disagree_crowds_def Let_def silent_def max_def)

lemma overlay_same_length: "length a = length b \<Longrightarrow> overlay a b = map2 (+) a b"
  by (induction a b rule: overlay.induct) simp_all

lemma length_mix: "length (mix_agree_disagree_crowds a b) = max (length a) (length b)"
  by (simp add: mix_unfold Let_def length_normalize_seg length_overlay length_silent)

section \<open>Facts about the layer count\<close>

lemma floor_sqrt_nat:
  assumes "k * k \<le> n" and "n < (k + 1) * (k + 1)"
  shows "nat \<lfloor>sqrt (real n)\<rfloor> = k"
proof -
  have a: "real k \<le> sqrt (real n)"
  proof -
    have "real k * real k \<le> real n" using assms(1) by (metis of_nat_le_iff of_nat_mult)
    then have "sqrt (real k * real k) \<le> sqrt (real n)" by (simp only: real_sqrt_le_iff)
    then show ?thesis by simp
  qed
  have b: "sqrt (real n) < real k + 1"
  proof -
    have "real n < (real k + 1) * (real k + 1)" using assms(2)
      by (metis of_nat_less_iff of_nat_mult of_nat_add of_nat_1)
    then have "sqrt (real n) < sqrt ((real k + 1) * (real k + 1))" by (simp only: real_sqrt_less_iff)
    then show ?thesis by simp
  qed
  have "\<lfloor>sqrt (real n)\<rfloor> = int k"
    using a b by (simp add: floor_eq_iff)
  then show ?thesis by simp
qed

lemma num_layers_le_50: "num_layers n \<le> 50"
  by (simp add: num_layers_def)

lemma num_layers_mono: "m \<le> n \<Longrightarrow> num_layers m \<le> num_layers n"
  unfolding num_layers_def
  by (intro min.mono nat_mono floor_mono) simp_all

lemma num_layers_4: "num_layers 4 = 2"
  using floor_sqrt_nat [of 2 4] by (simp add: num_layers_def)

lemma num_layers_100: "num_layers 100 = 10"
  using floor_sqrt_nat [of 10 100] by (simp add: num_layers_def)

lemma num_layers_2500: "num_layers 2500 = 50"
  using floor_sqrt_nat [of 50 2500] by (simp add: num_layers_def)

lemma num_layers_pos: "1 \<le> n \<Longrightarrow> 1 \<le> num_layers n"
proof -
  assume "1 \<le> n"
  then have "num_layers 1 \<le> num_layers n" by (rule num_layers_mono)
  moreover have "num_layers 1 = 1" using floor_sqrt_nat [of 1 1] by (simp add: num_layers_def)
  ultimately show ?thesis by simp
qed

section \<open>Facts about the layering loop\<close>

lemma varied_copy_True:
  "varied_copy base True g = (silent (g 0 mod 31) @ base, rng_skip 1 g)"
  by (simp add: varied_copy_def add_slight_variation_def randint_def)

lemma varied_copy_False: "varied_copy base False g = (base, g)"
  by (simp add: varied_copy_def)

lemma snd_varied_copy:
  "snd (varied_copy base av g) = rng_skip (if av then 1 else 0) g"
  by (cases av) (simp_all add: varied_copy_True varied_copy_False rng_skip_def)

lemma rng_skip_skip: "rng_skip a (rng_skip b g) = rng_skip (a + b) g"
  by (simp add: rng_skip_def ac_simps)

lemma length_layer_loop:
  "length (fst (layer_loop k base nl av (acc, g))) = length acc"
  by (induction k arbitrary: acc g) (simp_all add: split_beta Let_def length_overlay)

lemma snd_layer_loop:
  "snd (layer_loop k base nl av (acc, g)) = rng_skip (if av then k else 0) g"
proof (induction k arbitrary: acc g)
  case 0
  show ?case by (simp add: rng_skip_def)
next
  case (Suc k)
  show ?case
    using Suc.IH by (cases av) (simp_all add: split_beta Let_def snd_varied_copy rng_skip_skip varied_copy_False)
qed

lemma varied_copy_skip:
  "varied_copy base True (rng_skip j g) = (spec_copy base True g j, rng_skip (Suc j) g)"
  by (simp add: varied_copy_True spec_copy_def silent_def rng_skip_def)

lemma layer_loop_True:
  "fst (layer_loop k base nl True (acc, rng_skip j g)) =
     foldl (\<lambda>acc i. overlay acc (apply_gain (spec_copy base True g i) (- (3 * log 10 (real nl)))))
       acc [j..<j + k]"
proof (induction k arbitrary: acc j)
  case 0
  show ?case by simp
next
  case (Suc k)
  have "[j..<j + Suc k] = j # [Suc j..<Suc j + k]"
    by (simp add: upt_conv_Cons)
  then show ?case
    using Suc.IH [of _ "Suc j"] by (simp add: varied_copy_skip)
qed

lemma layer_loop_False:
  "fst (layer_loop k base nl False (acc, g')) =
     foldl (\<lambda>acc i. overlay acc (apply_gain (spec_copy base False g i) (- (3 * log 10 (real nl)))))
       acc [j..<j + k]"
proof (induction k arbitrary: acc j)
  case 0
  show ?case by simp
next
  case (Suc k)
  have "[j..<j + Suc k] = j # [Suc j..<Suc j + k]"
    by (simp add: upt_conv_Cons)
  then show ?case
    using Suc.IH [of _ "Suc j"] by (simp add: varied_copy_False spec_copy_def)
qed

lemma create_crowd_audio_spec:
  assumes "1 < v"
  shows "fst (create_crowd_audio base v jitter g) = spec_synthesize base v jitter g"
proof -
  have pos: "1 \<le> num_layers v" using assms num_layers_pos [of v] by simp
  then have upt: "[1..<1 + (num_layers v - 1)] = [1..<num_layers v]" by simp
  show ?thesis
  proof (cases jitter)
    case True
    have "varied_copy base True g = (spec_copy base True g 0, rng_skip 1 g)"
      using varied_copy_skip [of base 0 g] by (simp add: rng_skip_def)
    then show ?thesis
      using assms True layer_loop_True [of "num_layers v - 1" base "num_layers v" _ 1 g] upt
      by (simp add: create_crowd_audio_def spec_synthesize_def Let_def split_beta db_increase_def
          num_layers_def)
  next
    case False
    then show ?thesis
      using assms layer_loop_False [of "num_layers v - 1" base "num_layers v" _ g g 1] upt
      by (simp add: create_crowd_audio_def spec_synthesize_def Let_def split_beta db_increase_def
          num_layers_def varied_copy_False spec_copy_def)
  qed
qed

lemma db_increase_diff:
  assumes "0 < v1" "0 < v2"
  shows "db_increase v2 - db_increase v1 = 10 * log 10 (real v2 / real v1)"
  using assms by (simp add: db_increase_def log_divide)

lemma snd_create_crowd_audio:
  assumes "1 < v"
  shows "snd (create_crowd_audio base v True g) = rng_skip (num_layers v) g"
proof -
  have pos: "1 \<le> num_layers v" using assms num_layers_pos [of v] by simp
  have "snd (layer_loop (num_layers v - 1) base (num_layers v) True (varied_copy base True g))
        = rng_skip (num_layers v - 1) (rng_skip 1 g)"
    using snd_layer_loop [of "num_layers v - 1" base "num_layers v" True _ "rng_skip 1 g"]
    by (simp add: varied_copy_True)
  then show ?thesis
    using assms pos by (simp add: create_crowd_audio_def Let_def split_beta rng_skip_skip)
qed

lemma length_create_crowd_audio:
  assumes "1 < v"
  shows "length (fst (create_crowd_audio base v jitter g)) = length (fst (varied_copy base jitter g))"
  using assms length_layer_loop [of "num_layers v - 1" base "num_layers v" jitter
      "fst (varied_copy base jitter g)" "snd (varied_copy base jitter g)"]
  by (simp add: create_crowd_audio_def Let_def split_beta length_apply_gain)

section \<open>Facts about rounding\<close>

lemma py_round_cases: "py_round x = \<lfloor>x\<rfloor> \<or> (py_round x = \<lfloor>x\<rfloor> + 1 \<and> of_int \<lfloor>x\<rfloor> < x)"
  by (auto simp: py_round_def Let_def)

lemma py_round_nonneg: "0 \<le> x \<Longrightarrow> 0 \<le> py_round x"
  using py_round_cases [of x] by (auto simp: zero_le_floor)

lemma py_round_le: "x \<le> of_int n \<Longrightarrow> py_round x \<le> n"
proof -
  assume le: "x \<le> of_int n"
  then have f: "\<lfloor>x\<rfloor> \<le> n" by (simp add: floor_le_iff)
  show ?thesis
  proof (cases "py_round x = \<lfloor>x\<rfloor>")
    case True
    then show ?thesis using f by simp
  next
    case False
    then have r: "py_round x = \<lfloor>x\<rfloor> + 1" and lt: "of_int \<lfloor>x\<rfloor> < x"
      using py_round_cases [of x] by auto
    have "of_int \<lfloor>x\<rfloor> < (of_int n :: real)" using lt le by linarith
    then have "\<lfloor>x\<rfloor> < n" by simp
    then show ?thesis using r by simp
  qed
qed

section \<open>Facts about the pipeline\<close>

lemma generate_malformed:
  assumes "py_float (scientific_consensus r) = None \<or> py_float (public_agreement r) = None"
  shows "generate_audio_for_issue py_float generate_tts r i g = Inl ValueError"
  using assms by (auto simp: generate_audio_for_issue_def split: option.splits)

lemma main_loop_malformed:
  assumes "r \<in> snd ` set xs"
    and "py_float (scientific_consensus r) = None \<or> py_float (public_agreement r) = None"
  shows "main_loop py_float generate_tts xs s files g = Inl ValueError"
  using assms(1)
proof (induction xs arbitrary: s files g)
  case Nil
  then show ?case by simp
next
  case (Cons x xs)
  obtain i r' where x: "x = (i, r')" by (cases x)
  show ?case
  proof (cases "generate_audio_for_issue py_float generate_tts r' i g")
    case (Inl e)
    then show ?thesis using x by (cases e) simp
  next
    case (Inr res)
    then have "r' \<noteq> r" using generate_malformed [OF assms(2), of generate_tts i g] by auto
    then have "r \<in> snd ` set xs" using Cons.prems x by auto
    then show ?thesis
      using Inr x Cons.IH by (cases res) (auto split: option.splits)
  qed
qed

lemma snd_crowd_or_silent: "snd (crowd_or_silent base c g) = rng_skip (draws c) g"
proof -
  have z: "rng_skip 0 g = g" by (simp add: rng_skip_def)
  show ?thesis
  proof (cases "c \<le> 0")
    case True
    then show ?thesis by (simp add: crowd_or_silent_def draws_def z)
  next
    case False
    show ?thesis
    proof (cases "c = 1")
      case True
      then show ?thesis
        by (simp add: crowd_or_silent_def draws_def create_crowd_audio_def varied_copy_True)
    next
      case c1: False
      then have "1 < nat c" using False by simp
      then show ?thesis
        using False c1 snd_create_crowd_audio [of "nat c" base g]
        by (simp add: crowd_or_silent_def draws_def)
    qed
  qed
qed

lemma crowd_or_silent_pair:
  "crowd_or_silent base c g = (fst (crowd_or_silent base c g), rng_skip (draws c) g)"
  using snd_crowd_or_silent [of base c g] by (metis prod.collapse)

lemma generate_ok:
  assumes "py_float (scientific_consensus r) = Some sp"
    and "py_float (public_agreement r) = Some pp"
    and "generate_tts (''I believe '' @ statement r) ''com'' = Some a"
    and "generate_tts (''I don't believe '' @ statement r) ''co.uk'' = Some d"
    and "sa = fst (voice_counts NUM_VOICES sp)" and "sd = snd (voice_counts NUM_VOICES sp)"
    and "pa = fst (voice_counts NUM_VOICES pp)" and "pd = snd (voice_counts NUM_VOICES pp)"
    and "k1 = draws sa" and "k2 = k1 + draws sd" and "k3 = k2 + draws sa" and "k4 = k3 + draws sd"
    and "k5 = k4 + draws pa" and "k6 = k5 + draws pd" and "k7 = k6 + draws pa" and "k8 = k7 + draws pd"
  shows "generate_audio_for_issue py_float generate_tts r i g =
     Inr (Some \<lparr>sci_agree_mp3 = fst (crowd_or_silent a sa g),
                 sci_disagree_mp3 = fst (crowd_or_silent d sd (rng_skip k1 g)),
                 sci_both_mp3 = mix_agree_disagree_crowds
                   (fst (crowd_or_silent a sa (rng_skip k2 g)))
                   (fst (crowd_or_silent d sd (rng_skip k3 g))),
                 pub_agree_mp3 = fst (crowd_or_silent a pa (rng_skip k4 g)),
                 pub_disagree_mp3 = fst (crowd_or_silent d pd (rng_skip k5 g)),
                 pub_both_mp3 = mix_agree_disagree_crowds
                   (fst (crowd_or_silent a pa (rng_skip k6 g)))
                   (fst (crowd_or_silent d pd (rng_skip k7 g)))\<rparr>,
          rng_skip k8 g)"
proof -
  have s: "\<And>base c j. snd (crowd_or_silent base c (rng_skip j g)) = rng_skip (j + draws c) g"
    by (simp add: snd_crowd_or_silent rng_skip_skip add.commute)
  have s0: "\<And>base c. snd (crowd_or_silent base c g) = rng_skip (draws c) g"
    by (simp add: snd_crowd_or_silent)
  show ?thesis
    unfolding generate_audio_for_issue_def
    using assms by (simp add: split_beta Let_def s s0)
qed

lemma length_crowd_or_silent:
  assumes "1 < c"
  shows "length (fst (crowd_or_silent base c g)) = length base + g 0 mod 31"
proof -
  have "1 < nat c" using assms by simp
  then show ?thesis
    using assms length_create_crowd_audio [of "nat c" base True g]
    by (simp add: crowd_or_silent_def varied_copy_True length_silent)
qed

lemma crowd_or_silent_zero: "crowd_or_silent base 0 g = (silent (length base), g)"
  by (simp add: crowd_or_silent_def)

lemma voice_counts_100: "voice_counts NUM_VOICES 100 = (100, 0)"
  by (simp add: voice_counts_def NUM_VOICES_def py_round_def)

lemma draws_100: "draws 100 = 10"
  by (simp add: draws_def num_layers_100)

lemma draws_0: "draws 0 = 0"
  by (simp add: draws_def)

text \<open>
  A record whose speech synthesis fails is skipped and counted as failed: the run goes on
  to the next record and ends with its report.
\<close>

lemma main_tts_failure_continues:
  "main (\<lambda>s. if s = ''97'' then Some 97 else if s = ''50'' then Some 50 else None)
        (\<lambda>t v. None)
        [\<lparr>issue = ''A'', statement = ''s'', scientific_consensus = ''97'', public_agreement = ''50''\<rparr>,
         \<lparr>issue = ''C'', statement = ''u'', scientific_consensus = ''50'', public_agreement = ''97''\<rparr>]
        g = Inr (0, 2, [])"
  by (simp add: main_def generate_audio_for_issue_def enumerate_eq_zip split_beta Let_def)

section \<open>CrowdSynthesizer: virtual size 0\<close>

text \<open>
  C8: for every base buffer and either value of the jitter flag,
  \<^verbatim>\<open>create_crowd_audio(base, 0, jitter)\<close> returns a buffer of the duration of \<open>base\<close>
  whose samples are all zero: its peak amplitude is 0 and its level is minus infinity.
  The call raises nothing and draws nothing from the random source.
\<close>

theorem create_crowd_audio_zero_silent:
  "fst (create_crowd_audio base 0 jitter g) = replicate (length base) 0
   \<and> length (fst (create_crowd_audio base 0 jitter g)) = length base
   \<and> seg_max (fst (create_crowd_audio base 0 jitter g)) = 0
   \<and> max_dBFS (fst (create_crowd_audio base 0 jitter g)) = NegInf
   \<and> snd (create_crowd_audio base 0 jitter g) = g"
proof -
  have r: "create_crowd_audio base 0 jitter g = (silent (length base), g)"
    by (simp add: create_crowd_audio_def)
  have "max_dBFS (silent (length base)) = NegInf"
    by (simp add: max_dBFS_def ratio_to_db_def seg_max_silent)
  then show ?thesis
    using r by (simp add: seg_max_silent length_silent) (simp add: silent_def)
qed

section \<open>CrowdSynthesizer: virtual size 1\<close>

text \<open>
  C9: for every base buffer, \<^verbatim>\<open>create_crowd_audio(base, 1, add_variation=False)\<close> is
  \<open>base\<close> itself, sample for sample, and draws nothing. With \<^verbatim>\<open>add_variation=True\<close> it is
  \<open>base\<close> behind a silence whose duration is the draw of \<^verbatim>\<open>random.randint(0, 30)\<close>: a
  duration of at most 30 time-units, and every duration from 0 to 30 is the result for
  some state of the random source.
\<close>

theorem create_crowd_audio_one:
  "create_crowd_audio base 1 False g = (base, g)
   \<and> fst (create_crowd_audio base 1 True g) = silent (g 0 mod 31) @ base
   \<and> g 0 mod 31 \<le> 30
   \<and> (\<forall>d\<le>30. fst (create_crowd_audio base 1 True (\<lambda>i. d)) = silent d @ base)"
  by (simp add: create_crowd_audio_def varied_copy_True varied_copy_False)

theorem create_crowd_audio_one_witness:
  "create_crowd_audio [3, -2] 1 False (\<lambda>i. 17) = ([3, -2], \<lambda>i. 17)
   \<and> fst (create_crowd_audio [3, -2] 1 True (\<lambda>i. 17)) = replicate 17 0 @ [3, -2]"
  using create_crowd_audio_one [of "[3, -2]" "\<lambda>i. 17"] by (simp add: silent_def)

section \<open>CrowdSynthesizer: virtual size above 1\<close>

text \<open>
  C2: for every virtual size \<open>v > 1\<close> the layer count is \<open>min(floor(sqrt(v)), 50)\<close>, and
  that many jittered copies are taken: with jitter on, \<open>create_crowd_audio\<close> leaves the
  random source advanced by exactly \<open>num_layers v\<close> draws, one per copy. The count never
  exceeds 50, does not decrease when \<open>v\<close> grows, and is 2 at 4, 10 at 100 and 50 at 2500.
\<close>

theorem num_layers_count:
  assumes "1 < v"
  shows "num_layers v = min (nat \<lfloor>sqrt (real v)\<rfloor>) 50
       \<and> snd (create_crowd_audio base v True g) = rng_skip (num_layers v) g
       \<and> num_layers v \<le> 50
       \<and> (\<forall>w. v \<le> w \<longrightarrow> num_layers v \<le> num_layers w)
       \<and> num_layers 4 = 2 \<and> num_layers 100 = 10 \<and> num_layers 2500 = 50"
  using assms
  by (simp add: snd_create_crowd_audio num_layers_le_50 num_layers_mono num_layers_4 num_layers_100
      num_layers_2500) (simp add: num_layers_def)

theorem num_layers_count_witness:
  "num_layers 100 = 10 \<and> num_layers 2500 = 50 \<and> num_layers 100 \<le> num_layers 2500
   \<and> snd (create_crowd_audio [1] 100 True (\<lambda>i. i)) = rng_skip 10 (\<lambda>i. i)"
  using num_layers_count [of 100 "[1]" "\<lambda>i. i"] by simp

text \<open>
  C1: for every base buffer and every virtual size above 1, \<open>create_crowd_audio\<close> computes
  what the spec words: one (jittered) copy of the base as the accumulator, \<open>L - 1\<close> further
  copies overlaid onto it, each attenuated by \<open>3 log10(L)\<close> dB with \<open>L\<close> the layer count,
  and the gain \<open>10 log10(v)\<close> dB applied to the sum. For \<open>1 < v1 < v2\<close> the two gains
  differ by exactly \<open>10 log10(v2 / v1)\<close> dB.
\<close>

theorem create_crowd_audio_layering:
  assumes "1 < v1" and "v1 < v2"
  shows "fst (create_crowd_audio base v1 jitter g) = spec_synthesize base v1 jitter g
       \<and> fst (create_crowd_audio base v2 jitter g) = spec_synthesize base v2 jitter g
       \<and> db_increase v2 - db_increase v1 = 10 * log 10 (real v2 / real v1)"
proof -
  have "1 < v2" using assms by simp
  then show ?thesis
    using assms create_crowd_audio_spec [of v1] create_crowd_audio_spec [of v2]
      db_increase_diff [of v1 v2]
    by simp
qed

theorem create_crowd_audio_layering_witness:
  "fst (create_crowd_audio [1, -1] 4 True (\<lambda>i. 7 * i)) = spec_synthesize [1, -1] 4 True (\<lambda>i. 7 * i)
   \<and> db_increase 100 - db_increase 4 = 10 * log 10 25"
  using create_crowd_audio_layering [of 4 100 "[1, -1]" True "\<lambda>i. 7 * i"] by simp

text \<open>
  C10: for every base buffer and every virtual size above 1, with jitter on, the result
  has the duration of the first jittered copy: the duration of the base plus the first
  draw. An overlay keeps the length of the accumulator, and the samples of a layer beyond
  that length play no part in it.
\<close>

theorem create_crowd_audio_duration:
  assumes "1 < v"
  shows "length (fst (create_crowd_audio base v True g)) = length (fst (add_slight_variation base 30 g))
       \<and> length (fst (add_slight_variation base 30 g)) = length base + g 0 mod 31
       \<and> length (overlay acc layer) = length acc
       \<and> overlay acc layer = overlay acc (take (length acc) layer)"
  using assms length_create_crowd_audio [of v base True g] overlay_take [of acc layer]
  by (simp add: varied_copy_def length_overlay add_slight_variation_def randint_def length_silent)

theorem create_crowd_audio_duration_witness:
  "length (fst (create_crowd_audio [5, 5] 4 True (\<lambda>i. if i = 0 then 0 else 30))) = 2
   \<and> length (fst (add_slight_variation [5, 5] 30 (rng_skip 1 (\<lambda>i. if i = 0 then 0 else 30)))) = 32"
  using create_crowd_audio_duration [of 4 "[5, 5]" "\<lambda>i. if i = 0 then 0 else 30" "[]" "[]"]
  by (simp add: add_slight_variation_def randint_def length_silent rng_skip_def)

section \<open>CrowdMixer\<close>

text \<open>
  C5: for every two buffers, the mix has the duration \<open>max(duration(a), duration(b))\<close>:
  each input is padded with trailing silence to that duration, and the mix is the
  sample-wise sum of the two padded buffers, normalized when the clipping guard fires.
\<close>

theorem mix_duration:
  "length (mix_agree_disagree_crowds a b) = max (length a) (length b)
   \<and> length (a @ silent (max (length a) (length b) - length a)) = max (length a) (length b)
   \<and> length (b @ silent (max (length a) (length b) - length b)) = max (length a) (length b)
   \<and> mix_agree_disagree_crowds a b =
       (let mixed = map2 (+) (a @ silent (max (length a) (length b) - length a))
                             (b @ silent (max (length a) (length b) - length b))
        in if level_gt (max_dBFS mixed) (- 1) then normalize_seg mixed 1 else mixed)"
proof -
  have "overlay (a @ silent (max (length a) (length b) - length a))
                (b @ silent (max (length a) (length b) - length b))
        = map2 (+) (a @ silent (max (length a) (length b) - length a))
                   (b @ silent (max (length a) (length b) - length b))"
    by (rule overlay_same_length) (simp add: length_silent)
  then have "mix_agree_disagree_crowds a b =
       (let mixed = map2 (+) (a @ silent (max (length a) (length b) - length a))
                             (b @ silent (max (length a) (length b) - length b))
        in if level_gt (max_dBFS mixed) (- 1) then normalize_seg mixed 1 else mixed)"
    using mix_unfold [of a b] by simp
  moreover have "length (mix_agree_disagree_crowds a b) = max (length a) (length b)"
    by (rule length_mix)
  moreover have "length (a @ silent (max (length a) (length b) - length a)) = max (length a) (length b)"
    by (simp add: length_silent)
  moreover have "length (b @ silent (max (length a) (length b) - length b)) = max (length a) (length b)"
    by (simp add: length_silent)
  ultimately show ?thesis by blast
qed

text \<open>
  C3: for every two buffers, the peak level of the mix is at most -1 dBFS. When the peak
  of the overlaid sum exceeds -1 dBFS, the mix is the sum with every sample scaled by one
  factor, and its peak is at exactly -1 dBFS; otherwise the mix is the sum itself.
\<close>

theorem mix_peak_guard:
  "level_le (max_dBFS (mix_agree_disagree_crowds a b)) (- 1)
   \<and> (let mixed = overlay (a @ silent (max (length a) (length b) - length a))
                           (b @ silent (max (length a) (length b) - length b))
      in if level_gt (max_dBFS mixed) (- 1)
         then max_dBFS (mix_agree_disagree_crowds a b) = Level (- 1)
              \<and> mix_agree_disagree_crowds a b =
                  map (\<lambda>s. s * (max_possible_amplitude * db_to_float (- 1) / seg_max mixed)) mixed
         else mix_agree_disagree_crowds a b = mixed)"
proof -
  define mixed where "mixed = overlay (a @ silent (max (length a) (length b) - length a))
                           (b @ silent (max (length a) (length b) - length b))"
  have m: "mix_agree_disagree_crowds a b =
      (if level_gt (max_dBFS mixed) (- 1) then normalize_seg mixed 1 else mixed)"
    using mix_unfold [of a b] by (simp add: mixed_def Let_def)
  show ?thesis
  proof (cases "level_gt (max_dBFS mixed) (- 1)")
    case True
    then have nz: "seg_max mixed \<noteq> 0" by (rule level_gt_max_dBFS)
    have "max_dBFS (normalize_seg mixed 1) = Level (- 1)" using max_dBFS_normalize_seg [OF nz] .
    moreover have "normalize_seg mixed 1 =
        map (\<lambda>s. s * (max_possible_amplitude * db_to_float (- 1) / seg_max mixed)) mixed"
      using nz by (simp add: normalize_seg_def Let_def)
    ultimately show ?thesis
      using True m by (simp add: mixed_def [symmetric] Let_def)
  next
    case False
    then have "level_le (max_dBFS mixed) (- 1)" by (rule not_level_gt)
    then show ?thesis
      using False m by (simp add: mixed_def [symmetric] Let_def)
  qed
qed

section \<open>IssueAudioPipeline: voice counts\<close>

text \<open>
  C4: for every percentage \<open>p\<close> and every total population \<open>N\<close>, the agree count
  \<open>round(N p / 100)\<close> and the disagree count \<open>N - agree\<close> sum to exactly \<open>N\<close>; for
  \<open>p\<close> in \<open>[0, 100]\<close> and \<open>N \<ge> 0\<close> both counts lie in \<open>[0, N]\<close>.
\<close>

theorem voice_counts_sum:
  "fst (voice_counts N p) + snd (voice_counts N p) = N
   \<and> fst (voice_counts N p) = py_round (of_int N * p / 100)
   \<and> snd (voice_counts N p) = N - py_round (of_int N * p / 100)
   \<and> (0 \<le> N \<and> 0 \<le> p \<and> p \<le> 100 \<longrightarrow>
        0 \<le> fst (voice_counts N p) \<and> fst (voice_counts N p) \<le> N \<and> 0 \<le> snd (voice_counts N p))"
proof -
  have "0 \<le> N \<and> 0 \<le> p \<and> p \<le> 100 \<longrightarrow>
        0 \<le> py_round (of_int N * p / 100) \<and> py_round (of_int N * p / 100) \<le> N"
  proof
    assume a: "0 \<le> N \<and> 0 \<le> p \<and> p \<le> 100"
    then have "0 \<le> of_int N * p / 100" by simp
    moreover have "of_int N * p / 100 \<le> of_int N"
    proof -
      have "of_int N * p \<le> of_int N * 100" using a by (intro mult_left_mono) simp_all
      then show ?thesis by simp
    qed
    ultimately show "0 \<le> py_round (of_int N * p / 100) \<and> py_round (of_int N * p / 100) \<le> N"
      by (simp add: py_round_nonneg py_round_le)
  qed
  then show ?thesis by (simp add: voice_counts_def Let_def)
qed

theorem voice_counts_sum_witness:
  "voice_counts 100 97 = (97, 3) \<and> 0 \<le> fst (voice_counts 100 97)
   \<and> fst (voice_counts 100 97) \<le> 100 \<and> 0 \<le> snd (voice_counts 100 97)"
  using voice_counts_sum [of 100 97] by (simp add: voice_counts_def py_round_def)

section \<open>IssueAudioPipeline: the six outputs of a record\<close>

text \<open>
  C6, as amended: for every record whose percentages parse and whose two utterances are
  synthesized, and for each population, the pipeline exports one agree-crowd and one
  disagree-crowd buffer (\<open>create_crowd_audio\<close> with jitter for a positive count, silence of
  the base's duration otherwise), and the exported combined output is the mix of a second
  pair of crowd buffers, built afresh from the same bases and counts with the draws of the
  random source that follow: eight evaluations of the crowd expression per record, at the
  offsets \<open>0, k1, ..., k7\<close> of the random source.
\<close>

theorem generate_audio_for_issue_outputs:
  assumes "py_float (scientific_consensus r) = Some sp"
    and "py_float (public_agreement r) = Some pp"
    and "generate_tts (''I believe '' @ statement r) ''com'' = Some a"
    and "generate_tts (''I don't believe '' @ statement r) ''co.uk'' = Some d"
    and "sa = fst (voice_counts NUM_VOICES sp)" and "sd = snd (voice_counts NUM_VOICES sp)"
    and "pa = fst (voice_counts NUM_VOICES pp)" and "pd = snd (voice_counts NUM_VOICES pp)"
    and "k1 = draws sa" and "k2 = k1 + draws sd" and "k3 = k2 + draws sa" and "k4 = k3 + draws sd"
    and "k5 = k4 + draws pa" and "k6 = k5 + draws pd" and "k7 = k6 + draws pa" and "k8 = k7 + draws pd"
  shows "generate_audio_for_issue py_float generate_tts r i g =
     Inr (Some \<lparr>sci_agree_mp3 = fst (crowd_or_silent a sa g),
                 sci_disagree_mp3 = fst (crowd_or_silent d sd (rng_skip k1 g)),
                 sci_both_mp3 = mix_agree_disagree_crowds
                   (fst (crowd_or_silent a sa (rng_skip k2 g)))
                   (fst (crowd_or_silent d sd (rng_skip k3 g))),
                 pub_agree_mp3 = fst (crowd_or_silent a pa (rng_skip k4 g)),
                 pub_disagree_mp3 = fst (crowd_or_silent d pd (rng_skip k5 g)),
                 pub_both_mp3 = mix_agree_disagree_crowds
                   (fst (crowd_or_silent a pa (rng_skip k6 g)))
                   (fst (crowd_or_silent d pd (rng_skip k7 g)))\<rparr>,
          rng_skip k8 g)"
  using assms by (rule generate_ok)

theorem generate_audio_for_issue_outputs_witness:
  "generate_audio_for_issue (\<lambda>s. Some 100) (\<lambda>t v. Some [1])
       \<lparr>issue = ''A'', statement = ''s'', scientific_consensus = ''100'', public_agreement = ''100''\<rparr>
       0 (\<lambda>i. if i < 10 then 0 else 30) =
     Inr (Some \<lparr>sci_agree_mp3 = fst (crowd_or_silent [1] 100 (\<lambda>i. if i < 10 then 0 else 30)),
                 sci_disagree_mp3 =
                   fst (crowd_or_silent [1] 0 (rng_skip 10 (\<lambda>i. if i < 10 then 0 else 30))),
                 sci_both_mp3 = mix_agree_disagree_crowds
                   (fst (crowd_or_silent [1] 100 (rng_skip 10 (\<lambda>i. if i < 10 then 0 else 30))))
                   (fst (crowd_or_silent [1] 0 (rng_skip 20 (\<lambda>i. if i < 10 then 0 else 30)))),
                 pub_agree_mp3 =
                   fst (crowd_or_silent [1] 100 (rng_skip 20 (\<lambda>i. if i < 10 then 0 else 30))),
                 pub_disagree_mp3 =
                   fst (crowd_or_silent [1] 0 (rng_skip 30 (\<lambda>i. if i < 10 then 0 else 30))),
                 pub_both_mp3 = mix_agree_disagree_crowds
                   (fst (crowd_or_silent [1] 100 (rng_skip 30 (\<lambda>i. if i < 10 then 0 else 30))))
                   (fst (crowd_or_silent [1] 0 (rng_skip 40 (\<lambda>i. if i < 10 then 0 else 30))))\<rparr>,
          rng_skip 40 (\<lambda>i. if i < 10 then 0 else 30))"
  by (rule generate_audio_for_issue_outputs [where sp = 100 and pp = 100])
    (simp_all add: voice_counts_100 draws_100 draws_0)

text \<open>
  C6, as stated, fails: with a population that is all agree and a random source whose
  first ten draws are 0 and whose later draws are 30, the exported agree and disagree
  buffers both last 1 time-unit, so their mix would last 1, while the exported combined
  buffer lasts 31.
\<close>

theorem sci_both_not_mix_of_exported:
  "(case generate_audio_for_issue (\<lambda>s. Some 100) (\<lambda>t v. Some [1])
       \<lparr>issue = ''A'', statement = ''s'', scientific_consensus = ''100'', public_agreement = ''100''\<rparr>
       0 (\<lambda>i. if i < 10 then 0 else 30) of
      Inl e \<Rightarrow> False
    | Inr (None, g') \<Rightarrow> False
    | Inr (Some out, g') \<Rightarrow>
        length (sci_agree_mp3 out) = 1 \<and> length (sci_disagree_mp3 out) = 1
        \<and> length (sci_both_mp3 out) = 31
        \<and> length (mix_agree_disagree_crowds (sci_agree_mp3 out) (sci_disagree_mp3 out)) = 1
        \<and> sci_both_mp3 out \<noteq> mix_agree_disagree_crowds (sci_agree_mp3 out) (sci_disagree_mp3 out))"
proof -
  let ?g = "\<lambda>i::nat. if i < 10 then 0 else (30::nat)"
  let ?r = "\<lparr>issue = ''A'', statement = ''s'', scientific_consensus = ''100'', public_agreement = ''100''\<rparr>"
  have gen: "generate_audio_for_issue (\<lambda>s. Some 100) (\<lambda>t v. Some [1]) ?r 0 ?g =
     Inr (Some \<lparr>sci_agree_mp3 = fst (crowd_or_silent [1] 100 ?g),
                 sci_disagree_mp3 = fst (crowd_or_silent [1] 0 (rng_skip 10 ?g)),
                 sci_both_mp3 = mix_agree_disagree_crowds
                   (fst (crowd_or_silent [1] 100 (rng_skip 10 ?g)))
                   (fst (crowd_or_silent [1] 0 (rng_skip 20 ?g))),
                 pub_agree_mp3 = fst (crowd_or_silent [1] 100 (rng_skip 20 ?g)),
                 pub_disagree_mp3 = fst (crowd_or_silent [1] 0 (rng_skip 30 ?g)),
                 pub_both_mp3 = mix_agree_disagree_crowds
                   (fst (crowd_or_silent [1] 100 (rng_skip 30 ?g)))
                   (fst (crowd_or_silent [1] 0 (rng_skip 40 ?g)))\<rparr>,
          rng_skip 40 ?g)"
    by (rule generate_ok [where sp = 100 and pp = 100])
      (simp_all add: voice_counts_100 draws_100 draws_0)
  have l0: "\<And>h. length (fst (crowd_or_silent [1] 0 h)) = 1"
    by (simp add: crowd_or_silent_zero length_silent)
  have l1: "length (fst (crowd_or_silent [1] 100 ?g)) = 1"
    using length_crowd_or_silent [of 100 "[1]" ?g] by simp
  have l2: "length (fst (crowd_or_silent [1] 100 (rng_skip 10 ?g))) = 31"
    using length_crowd_or_silent [of 100 "[1]" "rng_skip 10 ?g"] by (simp add: rng_skip_def)
  have l3: "length (mix_agree_disagree_crowds (fst (crowd_or_silent [1] 100 (rng_skip 10 ?g)))
        (fst (crowd_or_silent [1] 0 (rng_skip 20 ?g)))) = 31"
    by (simp only: length_mix l2 l0 max.absorb1 one_le_numeral)
  have l4: "length (mix_agree_disagree_crowds (fst (crowd_or_silent [1] 100 ?g))
        (fst (crowd_or_silent [1] 0 (rng_skip 10 ?g)))) = 1"
    by (simp only: length_mix l1 l0 max.idem)
  have ne: "mix_agree_disagree_crowds (fst (crowd_or_silent [1] 100 (rng_skip 10 ?g)))
        (fst (crowd_or_silent [1] 0 (rng_skip 20 ?g)))
        \<noteq> mix_agree_disagree_crowds (fst (crowd_or_silent [1] 100 ?g))
        (fst (crowd_or_silent [1] 0 (rng_skip 10 ?g)))"
    using l3 l4 by (metis numeral_eq_one_iff semiring_norm(86))
  show ?thesis
    by (simp only: gen sum.case prod.case option.case issue_audio.simps l0 l1 l3 l4 ne) simp
qed

section \<open>IssueAudioPipeline: a malformed percentage\<close>

text \<open>
  C7 asks that a record with a malformed percentage be skipped and the batch go on to its
  final report. The code does otherwise: whenever some record of the batch has a
  percentage field that \<^verbatim>\<open>float\<close> rejects, \<^verbatim>\<open>main\<close> ends with the \<^verbatim>\<open>ValueError\<close>, and
  no success/total count is reported.
\<close>

theorem main_malformed_percentage_aborts:
  assumes "r \<in> set data"
    and "py_float (scientific_consensus r) = None \<or> py_float (public_agreement r) = None"
  shows "main py_float generate_tts data g = Inl ValueError"
proof -
  have "map snd (enumerate 0 data) = data" by simp
  then have "snd ` set (enumerate 0 data) = set data" by (metis set_map)
  then have "r \<in> snd ` set (enumerate 0 data)" using assms(1) by simp
  then have "main_loop py_float generate_tts (enumerate 0 data) 0 [] g = Inl ValueError"
    using assms(2) by (rule main_loop_malformed)
  then show ?thesis by (simp add: main_def)
qed

theorem main_malformed_percentage_aborts_witness:
  "main (\<lambda>s. if s = ''97'' then Some 97 else if s = ''50'' then Some 50 else None)
        (\<lambda>t v. Some [1])
        [\<lparr>issue = ''A'', statement = ''s'', scientific_consensus = ''97'', public_agreement = ''50''\<rparr>,
         \<lparr>issue = ''B'', statement = ''t'', scientific_consensus = ''n/a'', public_agreement = ''50''\<rparr>,
         \<lparr>issue = ''C'', statement = ''u'', scientific_consensus = ''50'', public_agreement = ''97''\<rparr>]
        (\<lambda>i. 0) = Inl ValueError"
  using main_malformed_percentage_aborts
    [of "\<lparr>issue = ''B'', statement = ''t'', scientific_consensus = ''n/a'', public_agreement = ''50''\<rparr>"
        "[\<lparr>issue = ''A'', statement = ''s'', scientific_consensus = ''97'', public_agreement = ''50''\<rparr>,
         \<lparr>issue = ''B'', statement = ''t'', scientific_consensus = ''n/a'', public_agreement = ''50''\<rparr>,
         \<lparr>issue = ''C'', statement = ''u'', scientific_consensus = ''50'', public_agreement = ''97''\<rparr>]"
        "\<lambda>s. if s = ''97'' then Some 97 else if s = ''50'' then Some 50 else None"
        "\<lambda>t v. Some [1]" "\<lambda>i. 0"]
  by simp

end
